theory Spec2Isabelle
  imports Complex_Main
begin

section \<open>Status labels and colors of \<^verbatim>\<open>get_traffic_status\<close>\<close>

text \<open>
  The status labels of \<^verbatim>\<open>src/app.py\<close> end in an emoji. A \<open>string\<close> is a list of
  bytes, so each emoji is written as its UTF-8 encoding:
  U+1F7E2 (green circle) is F0 9F 9F A2, U+1F7E0 (orange circle) is F0 9F 9F A0,
  U+1F534 (red circle) is F0 9F 94 B4 and U+26AB (black circle) is E2 9A AB.
\<close>

definition LANCAR :: string where
  "LANCAR = ''LANCAR '' @ [CHR 0xF0, CHR 0x9F, CHR 0x9F, CHR 0xA2]"

definition PADAT_MERAYAP :: string where
  "PADAT_MERAYAP = ''PADAT MERAYAP '' @ [CHR 0xF0, CHR 0x9F, CHR 0x9F, CHR 0xA0]"

definition MACET :: string where
  "MACET = ''MACET '' @ [CHR 0xF0, CHR 0x9F, CHR 0x94, CHR 0xB4]"

definition MACET_TOTAL :: string where
  "MACET_TOTAL = ''MACET TOTAL (GRIDLOCK) '' @ [CHR 0xE2, CHR 0x9A, CHR 0xAB]"

section \<open>The status classifier\<close>

text \<open>
  \<^verbatim>\<open>
  def get_traffic_status(flow, occupancy):
      status = "Unknown"
      color = "grey"
      if occupancy < 5:
          status = "LANCAR ..."; color = "green"
      elif 5 <= occupancy <= 15:
          status = "PADAT MERAYAP ..."; color = "orange"
      else:
          status = "MACET ..."; color = "red"
      if flow < 100 and occupancy > 20:
          status = "MACET TOTAL (GRIDLOCK) ..."; color = "black"
      return status, color
  \<close>
  The two local variables are threaded through the two statements as a pair; the
  inputs are real numbers.
\<close>

definition get_traffic_status :: "real \<Rightarrow> real \<Rightarrow> string \<times> string" where
  "get_traffic_status flow occupancy =
     (let sc0 = (''Unknown'', ''grey'');
          sc1 = (if occupancy < 5 then (LANCAR, ''green'')
                 else if 5 \<le> occupancy \<and> occupancy \<le> 15 then (PADAT_MERAYAP, ''orange'')
                 else (MACET, ''red''));
          sc2 = (if flow < 100 \<and> occupancy > 20 then (MACET_TOTAL, ''black'') else sc1)
      in sc2)"

text \<open>
  The four tiers of the specification, and the tier a status label of the code stands
  for. A label that is none of the four stands for no tier.
\<close>

datatype tier = FreeFlow | Congested | Jammed | GridlockTotal

definition tier_of_status :: "string \<Rightarrow> tier option" where
  "tier_of_status s =
     (if s = LANCAR then Some FreeFlow
      else if s = PADAT_MERAYAP then Some Congested
      else if s = MACET then Some Jammed
      else if s = MACET_TOTAL then Some GridlockTotal
      else None)"

text \<open>The fixed color of each tier, as the specification lists them.\<close>

fun tier_color :: "tier \<Rightarrow> string" where
  "tier_color FreeFlow = ''green''"
| "tier_color Congested = ''orange''"
| "tier_color Jammed = ''red''"
| "tier_color GridlockTotal = ''black''"

section \<open>The prediction pipeline\<close>

text \<open>
  Python's \<^verbatim>\<open>int(x)\<close> on a number truncates towards zero.
\<close>

definition py_int :: "real \<Rightarrow> int" where
  "py_int x = (if 0 \<le> x then \<lfloor>x\<rfloor> else \<lceil>x\<rceil>)"

text \<open>Decimal rendering of integers, as \<^verbatim>\<open>str\<close> and the f-string do.\<close>

definition digit_char :: "nat \<Rightarrow> char" where
  "digit_char d = ''0123456789'' ! (d mod 10)"

fun str_nat :: "nat \<Rightarrow> string" where
  "str_nat n = (if n < 10 then [digit_char n] else str_nat (n div 10) @ [digit_char (n mod 10)])"

declare str_nat.simps [simp del]

definition str_int :: "int \<Rightarrow> string" where
  "str_int i = (if i < 0 then ''-'' @ str_nat (nat (- i)) else str_nat (nat i))"

text \<open>
  The format \<^verbatim>\<open>f"{x:.2f}"\<close>: the value rounded to the nearest hundredth, a tie
  going to the even neighbour, written with exactly two digits after the point.
\<close>

definition round_half_even :: "real \<Rightarrow> int" where
  "round_half_even x =
     (let f = \<lfloor>x\<rfloor>; r = x - of_int f
      in if r < 1 / 2 then f
         else if 1 / 2 < r then f + 1
         else if even f then f else f + 1)"

definition format_2f :: "real \<Rightarrow> string" where
  "format_2f x =
     (let h = nat (round_half_even (\<bar>x\<bar> * 100))
      in (if x < 0 then ''-'' else []) @ str_nat (h div 100) @ ''.''
         @ [digit_char (h mod 100 div 10), digit_char (h mod 10)])"

text \<open>
  The body of the prediction branch, from the two raw predictor outputs on:
  \<^verbatim>\<open>
  pred_flow = max(0, pred_flow)
  pred_occ = max(0, pred_occ)
  status_text, status_color = get_traffic_status(pred_flow, pred_occ)
  m1.metric("Prediksi Arus (Flow)", f"{int(pred_flow)} kendaraan")
  m2.metric("Okupansi Jalan", f"{pred_occ:.2f} %")
  \<close>
  The record holds the local variables after these statements and the two strings
  given to the metrics \<open>m1\<close> and \<open>m2\<close>.
\<close>

record prediction =
  pred_flow :: real
  pred_occ :: real
  status_text :: string
  status_color :: string
  m1 :: string
  m2 :: string

definition run_prediction :: "real \<Rightarrow> real \<Rightarrow> prediction" where
  "run_prediction raw_flow raw_occ =
     (let flow = max 0 raw_flow;
          occ = max 0 raw_occ;
          (status, color) = get_traffic_status flow occ
      in \<lparr>pred_flow = flow, pred_occ = occ,
          status_text = status, status_color = color,
          m1 = str_int (py_int flow) @ '' kendaraan'',
          m2 = format_2f occ @ '' %''\<rparr>)"

section \<open>The categorical encoders\<close>

datatype error = UnknownDetectorError | KeyError | IndexError

text \<open>
  The day table and the options of the day selector:
  \<^verbatim>\<open>
  day_input = st.sidebar.selectbox("Hari:",
      ['Senin', 'Selasa', 'Rabu', 'Kamis', 'Jumat', 'Sabtu', 'Minggu'])
  day_mapping = {'Senin': 0, 'Selasa': 1, 'Rabu': 2, 'Kamis': 3,
                 'Jumat': 4, 'Sabtu': 5, 'Minggu': 6}
  day_code = day_mapping[day_input]
  \<close>
  Senin is Monday and Minggu is Sunday. A dictionary lookup of a missing key raises
  \<^verbatim>\<open>KeyError\<close>.
\<close>

definition day_options :: "string list" where
  "day_options = [''Senin'', ''Selasa'', ''Rabu'', ''Kamis'', ''Jumat'', ''Sabtu'', ''Minggu'']"

definition day_mapping :: "string \<rightharpoonup> int" where
  "day_mapping = [''Senin'' \<mapsto> 0, ''Selasa'' \<mapsto> 1, ''Rabu'' \<mapsto> 2, ''Kamis'' \<mapsto> 3,
                  ''Jumat'' \<mapsto> 4, ''Sabtu'' \<mapsto> 5, ''Minggu'' \<mapsto> 6]"

definition day_code :: "string \<Rightarrow> error + int" where
  "day_code day_input =
     (case day_mapping day_input of None \<Rightarrow> Inl KeyError | Some c \<Rightarrow> Inr c)"

text \<open>
  The label encoder is loaded from \<^verbatim>\<open>models/label_encoder_detid.pkl\<close>; the program
  reads its attribute \<^verbatim>\<open>classes_\<close> and calls its method \<^verbatim>\<open>transform\<close>.
  \<^verbatim>\<open>
  le_det = load_resources()
  detector_list = list(le_det.classes_)
  \<close>
  The attribute is the field \<open>classes\<close> of the record: a name cannot end in an
  underscore here.
\<close>

record label_encoder =
  classes :: "string list"

definition detector_list :: "label_encoder \<Rightarrow> string list" where
  "detector_list le_det = classes le_det"

text \<open>The position of the first occurrence of a label in the class list.\<close>

fun lookup_code :: "string list \<Rightarrow> string \<Rightarrow> int option" where
  "lookup_code [] d = None"
| "lookup_code (c # cs) d =
     (if c = d then Some 0 else map_option (\<lambda>i. i + 1) (lookup_code cs d))"

text \<open>
  Modelled from the spec: the encoder's method \<^verbatim>\<open>transform\<close>, which the program calls
  as \<^verbatim>\<open>det_code = le_det.transform([det_input])[0]\<close> and whose code is not among the
  sources. The specification describes it as \<open>detectorToCode\<close>: it looks the
  detector up in the enumeration, fails with \<open>UnknownDetectorError\<close> when the id is
  absent from it, and has no side effects. The encoder is passed in and returned, so
  that the absence of an effect is a statement about the returned encoder.
\<close>

definition detectorToCode :: "label_encoder \<Rightarrow> string \<Rightarrow> (error + int) \<times> label_encoder" where
  "detectorToCode le_det det_input =
     (case lookup_code (classes le_det) det_input of
        None \<Rightarrow> (Inl UnknownDetectorError, le_det)
      | Some c \<Rightarrow> (Inr c, le_det))"

text \<open>
  Decoding is indexing the class list, \<^verbatim>\<open>detector_list[code]\<close>: a Python list
  counts a negative index from the end and raises \<^verbatim>\<open>IndexError\<close> out of range.
\<close>

definition list_get :: "'a list \<Rightarrow> int \<Rightarrow> error + 'a" where
  "list_get xs i =
     (if 0 \<le> i \<and> i < int (length xs) then Inr (xs ! nat i)
      else if i < 0 \<and> - int (length xs) \<le> i then Inr (xs ! nat (int (length xs) + i))
      else Inl IndexError)"

section \<open>Facts about the labels\<close>

lemma tier_of_LANCAR: "tier_of_status LANCAR = Some FreeFlow"
  by (simp add: tier_of_status_def)

lemma tier_of_PADAT_MERAYAP: "tier_of_status PADAT_MERAYAP = Some Congested"
  by (simp add: tier_of_status_def LANCAR_def PADAT_MERAYAP_def)

lemma tier_of_MACET: "tier_of_status MACET = Some Jammed"
  by (simp add: tier_of_status_def LANCAR_def PADAT_MERAYAP_def MACET_def)

lemma tier_of_MACET_TOTAL: "tier_of_status MACET_TOTAL = Some GridlockTotal"
  by (simp add: tier_of_status_def LANCAR_def PADAT_MERAYAP_def MACET_def MACET_TOTAL_def)

lemmas tier_of_label =
  tier_of_LANCAR tier_of_PADAT_MERAYAP tier_of_MACET tier_of_MACET_TOTAL

section \<open>Facts about the pipeline and the encoder\<close>

lemma run_prediction_fields:
  "pred_flow (run_prediction raw_flow raw_occ) = max 0 raw_flow"
  "pred_occ (run_prediction raw_flow raw_occ) = max 0 raw_occ"
  "status_text (run_prediction raw_flow raw_occ) = fst (get_traffic_status (max 0 raw_flow) (max 0 raw_occ))"
  "status_color (run_prediction raw_flow raw_occ) = snd (get_traffic_status (max 0 raw_flow) (max 0 raw_occ))"
  "m1 (run_prediction raw_flow raw_occ) = str_int (py_int (max 0 raw_flow)) @ '' kendaraan''"
  "m2 (run_prediction raw_flow raw_occ) = format_2f (max 0 raw_occ) @ '' %''"
  by (simp_all add: run_prediction_def Let_def split_beta)

lemma status_at_zero: "get_traffic_status 0 0 = (LANCAR, ''green'')"
  by (simp add: get_traffic_status_def)

lemma str_nat_80: "str_nat 80 = ''80''"
  by (simp add: str_nat.simps digit_char_def)

lemma str_nat_22: "str_nat 22 = ''22''"
  by (simp add: str_nat.simps digit_char_def)

lemma round_2200: "round_half_even 2200 = 2200"
  by (simp add: round_half_even_def)

lemma format_2f_22: "format_2f 22 = ''22.00''"
  by (simp add: format_2f_def round_2200 str_nat_22 digit_char_def)

lemma lookup_code_None: "lookup_code cs d = None \<longleftrightarrow> d \<notin> set cs"
  by (induction cs) auto

lemma lookup_code_Some:
  "lookup_code cs d = Some c \<Longrightarrow> 0 \<le> c \<and> c < int (length cs) \<and> cs ! nat c = d"
proof (induction cs arbitrary: c)
  case Nil
  then show ?case by simp
next
  case (Cons a cs)
  show ?case
  proof (cases "a = d")
    case True
    with Cons.prems show ?thesis by simp
  next
    case False
    with Cons.prems obtain c' where c': "lookup_code cs d = Some c'" and c: "c = c' + 1"
      by auto
    from Cons.IH [OF c'] c show ?thesis
      by (simp add: nat_add_distrib)
  qed
qed

section \<open>The claims about the status classifier\<close>

text \<open>
  C1. With a flow of at least 100 the override cannot fire, and the tier is decided by
  the occupancy alone: FreeFlow exactly when the occupancy is below 5, Congested exactly
  when it lies between 5 and 15 (both included), Jammed exactly when it is above 15.
\<close>

theorem base_tier_iff:
  assumes "100 \<le> flow"
  shows "(tier_of_status (fst (get_traffic_status flow occ)) = Some FreeFlow \<longleftrightarrow> occ < 5)
       \<and> (tier_of_status (fst (get_traffic_status flow occ)) = Some Congested
            \<longleftrightarrow> 5 \<le> occ \<and> occ \<le> 15)
       \<and> (tier_of_status (fst (get_traffic_status flow occ)) = Some Jammed \<longleftrightarrow> 15 < occ)"
proof -
  consider (low) "occ < 5" | (mid) "5 \<le> occ" "occ \<le> 15" | (high) "15 < occ"
    by linarith
  then show ?thesis
  proof cases
    case low
    with assms show ?thesis
      by (simp add: get_traffic_status_def tier_of_label)
  next
    case mid
    with assms show ?thesis
      by (simp add: get_traffic_status_def tier_of_label)
  next
    case high
    with assms show ?thesis
      by (simp add: get_traffic_status_def tier_of_label)
  qed
qed

theorem base_tier_iff_witness:
  "(100::real) \<le> 120
   \<and> tier_of_status (fst (get_traffic_status 120 3)) = Some FreeFlow
   \<and> tier_of_status (fst (get_traffic_status 120 10)) = Some Congested
   \<and> tier_of_status (fst (get_traffic_status 120 40)) = Some Jammed"
proof -
  have h: "(100::real) \<le> 120" by simp
  show ?thesis
    using h base_tier_iff [OF h, of 3] base_tier_iff [OF h, of 10] base_tier_iff [OF h, of 40]
    by simp
qed

text \<open>
  C2. A flow below 100 together with an occupancy above 20 always gives the tier
  GridlockTotal, whatever the occupancy rules had chosen.
\<close>

theorem gridlock_override:
  assumes "flow < 100" and "20 < occ"
  shows "tier_of_status (fst (get_traffic_status flow occ)) = Some GridlockTotal"
  using assms by (simp add: get_traffic_status_def tier_of_label)

theorem gridlock_override_witness:
  "(80::real) < 100 \<and> (20::real) < 22
   \<and> tier_of_status (fst (get_traffic_status 80 22)) = Some GridlockTotal"
proof -
  have f: "(80::real) < 100" and o: "(20::real) < 22" by simp_all
  show ?thesis using f o gridlock_override [OF f o] by simp
qed

text \<open>
  C3. At the boundaries: (150, 5) and (150, 15) are Congested, (50, 20) is Jammed, since
  the override needs an occupancy strictly above 20, and (50, 20.01) is GridlockTotal.
\<close>

theorem boundary_values:
  "tier_of_status (fst (get_traffic_status 150 5)) = Some Congested
   \<and> tier_of_status (fst (get_traffic_status 150 15)) = Some Congested
   \<and> tier_of_status (fst (get_traffic_status 50 20)) = Some Jammed
   \<and> tier_of_status (fst (get_traffic_status 50 20.01)) = Some GridlockTotal"
  by (simp add: get_traffic_status_def tier_of_label)

text \<open>
  C6. For every input the returned color is the fixed color of the returned tier:
  green for FreeFlow, orange for Congested, red for Jammed, black for GridlockTotal.
\<close>

theorem color_of_tier:
  "map_option tier_color (tier_of_status (fst (get_traffic_status flow occ)))
     = Some (snd (get_traffic_status flow occ))"
  by (simp add: get_traffic_status_def tier_of_label)

text \<open>
  C10. For every input the result is one of four different status and color pairs; the
  initial values \<^verbatim>\<open>"Unknown"\<close> and \<^verbatim>\<open>"grey"\<close> are never returned.
\<close>

theorem four_results:
  "get_traffic_status flow occ \<in>
      {(LANCAR, ''green''), (PADAT_MERAYAP, ''orange''), (MACET, ''red''), (MACET_TOTAL, ''black'')}
   \<and> card {(LANCAR, ''green''), (PADAT_MERAYAP, ''orange''), (MACET, ''red''),
            (MACET_TOTAL, ''black'')} = 4
   \<and> get_traffic_status flow occ \<noteq> (''Unknown'', ''grey'')
   \<and> fst (get_traffic_status flow occ) \<noteq> ''Unknown''
   \<and> snd (get_traffic_status flow occ) \<noteq> ''grey''"
  by (simp add: get_traffic_status_def LANCAR_def PADAT_MERAYAP_def MACET_def MACET_TOTAL_def)

section \<open>The claims about the prediction pipeline\<close>

text \<open>
  C4. A negative predictor output is replaced by 0 before the classifier is called, and
  the classifier is called on the clipped values; the raw outputs (-5, -1) are therefore
  classified as (0, 0), which is FreeFlow.
\<close>

theorem negative_outputs_clipped:
  "(raw_flow < 0 \<longrightarrow> pred_flow (run_prediction raw_flow raw_occ) = 0)
   \<and> (raw_occ < 0 \<longrightarrow> pred_occ (run_prediction raw_flow raw_occ) = 0)
   \<and> (status_text (run_prediction raw_flow raw_occ), status_color (run_prediction raw_flow raw_occ))
       = get_traffic_status (pred_flow (run_prediction raw_flow raw_occ))
                            (pred_occ (run_prediction raw_flow raw_occ))
   \<and> (status_text (run_prediction (- 5) (- 1)), status_color (run_prediction (- 5) (- 1)))
       = get_traffic_status 0 0
   \<and> tier_of_status (status_text (run_prediction (- 5) (- 1))) = Some FreeFlow"
  by (simp add: run_prediction_fields status_at_zero tier_of_label)

theorem negative_outputs_clipped_witness:
  "(- 3 :: real) < 0 \<and> (- 7 :: real) < 0
   \<and> pred_flow (run_prediction (- 3) (- 7)) = 0
   \<and> pred_occ (run_prediction (- 3) (- 7)) = 0
   \<and> (status_text (run_prediction (- 3) (- 7)), status_color (run_prediction (- 3) (- 7)))
       = get_traffic_status 0 0"
proof -
  note t = negative_outputs_clipped [of "- 3" "- 7"]
  from t have f: "pred_flow (run_prediction (- 3) (- 7)) = 0"
    and o: "pred_occ (run_prediction (- 3) (- 7)) = 0"
    by simp_all
  from t have "(status_text (run_prediction (- 3) (- 7)), status_color (run_prediction (- 3) (- 7)))
      = get_traffic_status (pred_flow (run_prediction (- 3) (- 7)))
                           (pred_occ (run_prediction (- 3) (- 7)))"
    by blast
  with f o show ?thesis by simp
qed

text \<open>
  C5, as the code has it. When the predictors return a flow of 80 and an occupancy of
  22, the status is GridlockTotal with color black, the flow is shown as the integer 80
  (the metric text is \<^verbatim>\<open>80 kendaraan\<close>), and the occupancy is shown with two decimals
  as \<^verbatim>\<open>22.00 %\<close>: the format string puts a space before the percent sign.
\<close>

theorem scenario_80_22:
  "tier_of_status (status_text (run_prediction 80 22)) = Some GridlockTotal
   \<and> status_color (run_prediction 80 22) = ''black''
   \<and> py_int (pred_flow (run_prediction 80 22)) = 80
   \<and> m1 (run_prediction 80 22) = ''80 kendaraan''
   \<and> m2 (run_prediction 80 22) = ''22.00 %''"
  by (simp add: run_prediction_fields get_traffic_status_def tier_of_label py_int_def
      str_int_def str_nat_80 format_2f_22)

text \<open>
  C5 as stated fails: the occupancy text is not \<^verbatim>\<open>22.00%\<close>.
\<close>

theorem scenario_80_22_counterexample:
  "m2 (run_prediction 80 22) \<noteq> ''22.00%''"
  by (simp add: run_prediction_fields format_2f_22)

section \<open>The claims about the encoders\<close>

text \<open>
  C7. Encoding a detector id that is not in the enumeration gives the error
  \<open>UnknownDetectorError\<close> and therefore no code, and encoding any id leaves the encoder
  as it was.
\<close>

theorem unknown_detector_raises:
  "(d \<notin> set (classes le_det) \<longrightarrow> fst (detectorToCode le_det d) = Inl UnknownDetectorError)
   \<and> snd (detectorToCode le_det d) = le_det"
  by (auto simp: detectorToCode_def lookup_code_None [symmetric] split: option.splits)

theorem unknown_detector_raises_witness:
  "''RDM-99'' \<notin> set (classes \<lparr>classes = [''RDM-01'', ''RDM-12'']\<rparr>)
   \<and> detectorToCode \<lparr>classes = [''RDM-01'', ''RDM-12'']\<rparr> ''RDM-99''
       = (Inl UnknownDetectorError, \<lparr>classes = [''RDM-01'', ''RDM-12'']\<rparr>)"
  using unknown_detector_raises [of "''RDM-99''" "\<lparr>classes = [''RDM-01'', ''RDM-12'']\<rparr>"]
  by (simp add: prod_eq_iff)

text \<open>
  C8. For every detector id of the enumeration, encoding succeeds and looking the code
  up in the class list gives the id back.
\<close>

theorem encode_decode_roundtrip:
  assumes "d \<in> set (detector_list le_det)"
  shows "\<exists>c. fst (detectorToCode le_det d) = Inr c \<and> list_get (detector_list le_det) c = Inr d"
proof -
  from assms have "lookup_code (classes le_det) d \<noteq> None"
    by (simp add: lookup_code_None detector_list_def)
  then obtain c where c: "lookup_code (classes le_det) d = Some c"
    by auto
  from lookup_code_Some [OF c] have "list_get (detector_list le_det) c = Inr d"
    by (simp add: list_get_def detector_list_def)
  with c show ?thesis
    by (simp add: detectorToCode_def)
qed

theorem encode_decode_roundtrip_witness:
  "''RDM-12'' \<in> set (detector_list \<lparr>classes = [''RDM-01'', ''RDM-12'', ''RDM-30'']\<rparr>)
   \<and> fst (detectorToCode \<lparr>classes = [''RDM-01'', ''RDM-12'', ''RDM-30'']\<rparr> ''RDM-12'') = Inr 1
   \<and> list_get (detector_list \<lparr>classes = [''RDM-01'', ''RDM-12'', ''RDM-30'']\<rparr>) 1 = Inr ''RDM-12''"
proof -
  have h: "''RDM-12'' \<in> set (detector_list \<lparr>classes = [''RDM-01'', ''RDM-12'', ''RDM-30'']\<rparr>)"
    by (simp add: detector_list_def)
  from encode_decode_roundtrip [OF h] obtain c where
    "fst (detectorToCode \<lparr>classes = [''RDM-01'', ''RDM-12'', ''RDM-30'']\<rparr> ''RDM-12'') = Inr c"
    "list_get (detector_list \<lparr>classes = [''RDM-01'', ''RDM-12'', ''RDM-30'']\<rparr>) c = Inr ''RDM-12''"
    by blast
  moreover from this(1) have "c = 1"
    by (simp add: detectorToCode_def)
  ultimately show ?thesis using h by simp
qed

text \<open>
  C9. The day table has exactly seven entries, its keys are the seven day symbols of the
  selector, and it maps them, in order from Senin (Monday) to Minggu (Sunday), to the
  codes 0 to 6; no lookup of a day symbol fails.
\<close>

theorem day_encoding_table:
  "map day_code day_options = [Inr 0, Inr 1, Inr 2, Inr 3, Inr 4, Inr 5, Inr 6]
   \<and> dom day_mapping = set day_options
   \<and> card (dom day_mapping) = 7
   \<and> length day_options = 7"
  by (auto simp: day_code_def day_options_def day_mapping_def)

end
